theory Spec2Isabelle
  imports Complex_Main
begin

section \<open>MetalStock: geometry calculator, stock allocation and project costing\<close>

text \<open>
  A shallow embedding of the back end's core: the MetalMath weight calculator, the
  StockItem collection with the decrement/restore helpers of the project
  controller, and the Project document with its pre-save cost aggregation.

  JavaScript numbers are modelled as exact reals: the arithmetic of the source is kept
  operation by operation, without the rounding error of IEEE doubles and without the
  values \<open>NaN\<close> and \<open>Infinity\<close>. A value that may be \<open>undefined\<close> in the source is an
  \<open>option\<close>.

  The source computes in doubles, so where the exact value lies on a decimal tie
  (1.275 kg to be rounded to two decimals) or on the boundary of a comparison, the double
  can fall on the other side and the program's result differ from the model's by one
  step of the rounding grid. The general statements below are therefore worded so that
  they hold for either side: a rounded result is stated as a nearest point of the grid,
  not as the tie going up, and a comparison is assumed strictly.
\<close>

subsection \<open>JavaScript primitives\<close>

text \<open>\<open>Math.round(x)\<close>: the nearest integer, a tie of the exact value going up.\<close>

definition Math_round :: "real \<Rightarrow> real" where
  "Math_round x = of_int \<lfloor>x + 1 / 2\<rfloor>"

text \<open>\<open>Math.round(x * 100) / 100\<close>, the two-decimal rounding used throughout the source.\<close>

definition round2 :: "real \<Rightarrow> real" where
  "round2 x = Math_round (x * 100) / 100"

text \<open>\<open>a || b\<close> on numbers: \<open>a\<close> when it is truthy (not zero), else \<open>b\<close>.\<close>

definition num_or :: "real \<Rightarrow> real \<Rightarrow> real" where
  "num_or a b = (if a \<noteq> 0 then a else b)"

subsection \<open>MetalMath: volumes and weight\<close>

datatype error =
    UnknownShape string
  | NotFound string
  | ProjectClosed string
  | InsufficientStock real
  | ServerError string

text \<open>\<open>DENSITIES\<close>, in grams per cubic centimetre; a key that is absent gives \<open>undefined\<close>.\<close>

definition DENSITIES :: "string \<Rightarrow> real option" where
  "DENSITIES m =
     (if m = ''steel'' then Some 7.85
      else if m = ''stainless'' then Some 7.90
      else if m = ''aluminum'' then Some 2.70
      else if m = ''brass'' then Some 8.50
      else if m = ''bronze'' then Some 8.80
      else if m = ''plastic'' then Some 1.20
      else None)"

definition mmToCm :: "real \<Rightarrow> real" where
  "mmToCm mm = mm / 10"

definition volumeRoundBar :: "real \<Rightarrow> real \<Rightarrow> real" where
  "volumeRoundBar diameterMm lengthMm =
     (let radiusCm = mmToCm diameterMm / 2;
          lengthCm = mmToCm lengthMm
      in pi * radiusCm ^ 2 * lengthCm)"

definition volumeRectangular :: "real \<Rightarrow> real \<Rightarrow> real \<Rightarrow> real" where
  "volumeRectangular widthMm heightMm lengthMm =
     (let widthCm = mmToCm widthMm;
          heightCm = mmToCm heightMm;
          lengthCm = mmToCm lengthMm
      in widthCm * heightCm * lengthCm)"

definition volumeTube :: "real \<Rightarrow> real \<Rightarrow> real \<Rightarrow> real" where
  "volumeTube outerDiameterMm wallThicknessMm lengthMm =
     (let outerRadiusCm = mmToCm outerDiameterMm / 2;
          innerRadiusCm = outerRadiusCm - mmToCm wallThicknessMm;
          lengthCm = mmToCm lengthMm;
          outerArea = pi * outerRadiusCm ^ 2;
          innerArea = pi * innerRadiusCm ^ 2
      in (outerArea - innerArea) * lengthCm)"

definition volumeHex :: "real \<Rightarrow> real \<Rightarrow> real" where
  "volumeHex flatToFlatMm lengthMm =
     (let flatToFlatCm = mmToCm flatToFlatMm;
          lengthCm = mmToCm lengthMm;
          area = (sqrt 3 / 2) * flatToFlatCm ^ 2
      in area * lengthCm)"

definition calculateWeight :: "real \<Rightarrow> real \<Rightarrow> real" where
  "calculateWeight volumeCm3 densityGCm3 =
     (let weightKg = (volumeCm3 * densityGCm3) / 1000
      in Math_round (weightKg * 100) / 100)"

definition lengthFromWeight :: "real \<Rightarrow> real \<Rightarrow> real \<Rightarrow> real" where
  "lengthFromWeight weightKg diameterMm densityGCm3 =
     (let radiusCm = mmToCm diameterMm / 2;
          crossSectionAreaCm2 = pi * radiusCm ^ 2;
          volumeCm3 = (weightKg * 1000) / densityGCm3;
          lengthCm = volumeCm3 / crossSectionAreaCm2
      in Math_round (lengthCm * 10))"

record dimensions =
  dim_d :: real
  dim_w :: real
  dim_h :: real
  dim_wall :: real

text \<open>
  The parameter object of \<open>getWeight\<close>. \<open>density\<close> and \<open>materialType\<close> may be left out
  by the caller.
\<close>

record weight_params =
  shape :: string
  dims :: dimensions
  lengthMm :: real
  density :: "real option"
  materialType :: "string option"

text \<open>\<open>density || DENSITIES[materialType] || DENSITIES.steel\<close>.\<close>

definition effectiveDensity :: "weight_params \<Rightarrow> real" where
  "effectiveDensity p =
     (let fromType = (case materialType p of None \<Rightarrow> None | Some m \<Rightarrow> DENSITIES m)
      in case density p of
           Some d \<Rightarrow> if d \<noteq> 0 then d
                     else (case fromType of Some t \<Rightarrow> t | None \<Rightarrow> 7.85)
         | None \<Rightarrow> (case fromType of Some t \<Rightarrow> t | None \<Rightarrow> 7.85))"

definition getWeight :: "weight_params \<Rightarrow> error + real" where
  "getWeight p =
     (let rho = effectiveDensity p
      in if shape p = ''round'' then
           Inr (calculateWeight (volumeRoundBar (dim_d (dims p)) (lengthMm p)) rho)
         else if shape p = ''hex'' then
           Inr (calculateWeight (volumeHex (dim_d (dims p)) (lengthMm p)) rho)
         else if shape p = ''tube'' then
           Inr (calculateWeight (volumeTube (dim_d (dims p)) (dim_wall (dims p)) (lengthMm p)) rho)
         else if shape p = ''plate'' \<or> shape p = ''box'' then
           Inr (calculateWeight (volumeRectangular (dim_w (dims p)) (dim_h (dims p)) (lengthMm p)) rho)
         else Inl (UnknownShape (shape p)))"

definition supported_shapes :: "string set" where
  "supported_shapes = {''round'', ''hex'', ''tube'', ''plate'', ''box''}"


subsection \<open>Documents and collections\<close>

type_synonym oid = nat

datatype item_type = FULL_BAR | OFFCUT | BOX

datatype item_status = available | reserved | consumed

datatype movement_type = IN | OUT | CUT | ADJUST

datatype project_status = draft | active | completed | on_hold | cancelled

text \<open>Product: the fields of the catalogue entry that the stock and project code reads.\<close>

record product =
  product_id :: oid
  weightPerMeter :: real
  stockUnit :: string
  lastPrice :: real
  averagePrice :: real

record stock_item =
  item_id :: oid
  item_product :: oid
  item_type :: item_type
  quantity :: real
  lengthMM :: real
  calculatedWeight :: real
  status :: item_status

record movement =
  mv_id :: oid
  mv_type :: movement_type
  mv_product :: oid
  mv_user :: oid
  quantityDelta :: real
  mv_unit :: string
  projectRef :: string
  costSnapshot :: real
  mv_totalCost :: real

record project_material =
  pm_id :: oid
  pm_project :: oid
  pm_product :: oid
  pm_quantity :: real
  pm_unit :: string
  unitCost :: real
  pm_totalCost :: real
  addedBy :: oid
  pm_movement :: oid
  pm_notes :: "string option"

record cost_totals =
  materials :: real
  labor :: real
  other :: real
  total :: real

record labor_entry =
  le_id :: oid
  worker :: string
  hours :: real
  hourlyRate :: real
  le_description :: string
  le_totalCost :: real

record other_cost =
  oc_description :: string
  amount :: real

record project =
  project_id :: oid
  reference :: string
  proj_status :: project_status
  budget :: cost_totals
  costs :: cost_totals
  laborEntries :: "labor_entry list"
  otherCosts :: "other_cost list"

text \<open>
  The database: one list per collection, in insertion order, and the next fresh
  document id.
\<close>

record db =
  projects :: "project list"
  products :: "product list"
  stockItems :: "stock_item list"
  movements :: "movement list"
  projectMaterials :: "project_material list"
  nextId :: oid

definition findProject :: "oid \<Rightarrow> db \<Rightarrow> project option" where
  "findProject i d = find (\<lambda>p. project_id p = i) (projects d)"

definition findProduct :: "oid \<Rightarrow> db \<Rightarrow> product option" where
  "findProduct i d = find (\<lambda>p. product_id p = i) (products d)"

definition findProjectMaterial :: "oid \<Rightarrow> db \<Rightarrow> project_material option" where
  "findProjectMaterial i d = find (\<lambda>m. pm_id m = i) (projectMaterials d)"

text \<open>\<open>unit || product.stockConfig.unit\<close>: a missing or empty string is falsy.\<close>

definition str_or :: "string option \<Rightarrow> string \<Rightarrow> string" where
  "str_or u dflt = (case u of None \<Rightarrow> dflt | Some s \<Rightarrow> if s = [] then dflt else s)"

subsection \<open>StockItem model\<close>

text \<open>
  \<open>calculateWeight\<close> (method): populates the product; with a positive weight per metre the
  weight is recomputed from length and quantity, otherwise it is left as it is.
\<close>

definition item_calculateWeight :: "product list \<Rightarrow> stock_item \<Rightarrow> stock_item" where
  "item_calculateWeight ps item =
     (case find (\<lambda>p. product_id p = item_product item) ps of
        None \<Rightarrow> item
      | Some p \<Rightarrow>
          if weightPerMeter p > 0 then
            (let lengthMeters = lengthMM item / 1000;
                 w = lengthMeters * weightPerMeter p * quantity item
             in item\<lparr>calculatedWeight := Math_round (w * 100) / 100\<rparr>)
          else item)"

text \<open>
  \<open>item.save()\<close> of a loaded document \<open>old\<close> changed in memory to \<open>item\<close>: the pre-save
  hook recomputes the weight when quantity or length were modified, then the stored
  document with the same id is replaced.
\<close>

definition item_preSave :: "product list \<Rightarrow> stock_item \<Rightarrow> stock_item \<Rightarrow> stock_item" where
  "item_preSave ps old item =
     (if quantity item \<noteq> quantity old \<or> lengthMM item \<noteq> lengthMM old
      then item_calculateWeight ps item else item)"

definition item_save :: "product list \<Rightarrow> stock_item \<Rightarrow> stock_item \<Rightarrow> stock_item list \<Rightarrow> stock_item list" where
  "item_save ps old item store =
     map (\<lambda>x. if item_id x = item_id old then item_preSave ps old item else x) store"

record total_stock =
  totalQuantity :: real
  totalWeight :: real
  totalLength :: real

text \<open>
  \<open>getTotalStock\<close>: the aggregation over the available items of the product; with no
  such item the zero record.
\<close>

definition getTotalStock :: "oid \<Rightarrow> stock_item list \<Rightarrow> total_stock" where
  "getTotalStock productId store =
     (let matched = filter (\<lambda>i. item_product i = productId \<and> status i = available) store
      in \<lparr>totalQuantity = sum_list (map quantity matched),
          totalWeight = sum_list (map calculatedWeight matched),
          totalLength = sum_list (map (\<lambda>i. quantity i * lengthMM i) matched)\<rparr>)"

subsection \<open>Stock helpers of the project controller\<close>

text \<open>
  \<open>.sort({ type: -1, calculatedWeight: 1 })\<close>: descending on the type string, so
  \<open>OFFCUT\<close>, then \<open>FULL_BAR\<close>, then \<open>BOX\<close>; ascending weight within a type. Documents
  that tie keep their collection order.
\<close>

fun typeOrder :: "item_type \<Rightarrow> nat" where
  "typeOrder OFFCUT = 0"
| "typeOrder FULL_BAR = 1"
| "typeOrder BOX = 2"

definition sortBefore :: "stock_item \<Rightarrow> stock_item \<Rightarrow> bool" where
  "sortBefore a b \<longleftrightarrow>
     typeOrder (item_type a) < typeOrder (item_type b)
     \<or> (typeOrder (item_type a) = typeOrder (item_type b) \<and> calculatedWeight a \<le> calculatedWeight b)"

fun insertSorted :: "stock_item \<Rightarrow> stock_item list \<Rightarrow> stock_item list" where
  "insertSorted x [] = [x]"
| "insertSorted x (y # ys) = (if sortBefore x y then x # y # ys else y # insertSorted x ys)"

fun sortItems :: "stock_item list \<Rightarrow> stock_item list" where
  "sortItems [] = []"
| "sortItems (x # xs) = insertSorted x (sortItems xs)"

definition candidate :: "oid \<Rightarrow> stock_item \<Rightarrow> bool" where
  "candidate productId i \<longleftrightarrow>
     item_product i = productId \<and> status i = available \<and> quantity i > 0"

definition findAvailable :: "oid \<Rightarrow> stock_item list \<Rightarrow> stock_item list" where
  "findAvailable productId store = sortItems (filter (candidate productId) store)"

text \<open>\<open>item.calculatedWeight || item.quantity\<close>.\<close>

definition itemStock :: "stock_item \<Rightarrow> real" where
  "itemStock item = num_or (calculatedWeight item) (quantity item)"

text \<open>The body of the loop of \<open>decrementStock\<close> up to the save: the item as changed in memory.\<close>

definition deductItem :: "real \<Rightarrow> stock_item \<Rightarrow> stock_item" where
  "deductItem remaining item =
     (let toDeduct = min remaining (itemStock item);
          item1 =
            (if calculatedWeight item \<noteq> 0 then
               (let ratio = toDeduct / calculatedWeight item
                in item\<lparr>quantity := max 0 (quantity item - quantity item * ratio),
                        calculatedWeight := max 0 (calculatedWeight item - toDeduct)\<rparr>)
             else item\<lparr>quantity := max 0 (quantity item - toDeduct)\<rparr>)
      in if quantity item1 \<le> 0 then item1\<lparr>status := consumed\<rparr> else item1)"

fun decrementLoop ::
  "product list \<Rightarrow> real \<Rightarrow> stock_item list \<Rightarrow> stock_item list \<Rightarrow> stock_item list \<times> real" where
  "decrementLoop ps remaining [] store = (store, remaining)"
| "decrementLoop ps remaining (item # items) store =
     (if remaining \<le> 0 then (store, remaining)
      else
        (let toDeduct = min remaining (itemStock item);
             store' = item_save ps item (deductItem remaining item) store
         in decrementLoop ps (remaining - toDeduct) items store'))"

text \<open>\<open>decrementStock\<close>: the returned flag \<open>remaining <= 0\<close> and the database after the saves.\<close>

definition decrementStock :: "oid \<Rightarrow> real \<Rightarrow> db \<Rightarrow> bool \<times> db" where
  "decrementStock productId qty d =
     (let stockItemsFound = findAvailable productId (stockItems d);
          r = decrementLoop (products d) qty stockItemsFound (stockItems d)
      in (snd r \<le> 0, d\<lparr>stockItems := fst r\<rparr>))"

text \<open>
  \<open>restoreStock\<close>: the first available full bar of the product gets one more piece;
  without one a new full bar of one piece is created, with the schema defaults
  (length 6000, weight 0) and the weight computed by the pre-save hook.
\<close>

definition restoreStock :: "oid \<Rightarrow> real \<Rightarrow> db \<Rightarrow> stock_item \<times> db" where
  "restoreStock productId qty d =
     (case find (\<lambda>i. item_product i = productId \<and> status i = available \<and> item_type i = FULL_BAR)
             (stockItems d) of
        Some stockItem \<Rightarrow>
          (let bumped = item_calculateWeight (products d) (stockItem\<lparr>quantity := quantity stockItem + 1\<rparr>);
               saved = item_preSave (products d) stockItem bumped
           in (saved, d\<lparr>stockItems := item_save (products d) stockItem bumped (stockItems d)\<rparr>))
      | None \<Rightarrow>
          (let created = item_calculateWeight (products d)
                 \<lparr>item_id = nextId d, item_product = productId, item_type = FULL_BAR,
                  quantity = 1, lengthMM = 6000, calculatedWeight = 0, status = available\<rparr>
           in (created, d\<lparr>stockItems := stockItems d @ [created], nextId := nextId d + 1\<rparr>)))"

subsection \<open>Movement and ProjectMaterial models\<close>

text \<open>
  \<open>Movement.create\<close>: schema validation (the unit enum), then the pre-save hook that
  computes the total cost when cost snapshot and quantity are both truthy. A validation
  failure throws and stores nothing.
\<close>

definition movement_units :: "string set" where
  "movement_units = {''kg'', ''un'', ''mm'', ''m''}"

definition Movement_create ::
  "movement_type \<Rightarrow> oid \<Rightarrow> oid \<Rightarrow> real \<Rightarrow> string \<Rightarrow> string \<Rightarrow> real \<Rightarrow> db \<Rightarrow> error + (movement \<times> db)" where
  "Movement_create ty productId userId delta u pref cost d =
     (if u \<notin> movement_units then Inl (ServerError ''Movement validation failed'')
      else
        (let m = \<lparr>mv_id = nextId d, mv_type = ty, mv_product = productId, mv_user = userId,
                  quantityDelta = delta, mv_unit = u, projectRef = pref, costSnapshot = cost,
                  mv_totalCost = (if cost \<noteq> 0 \<and> delta \<noteq> 0
                                  then Math_round (\<bar>delta\<bar> * cost * 100) / 100 else 0)\<rparr>
         in Inr (m, d\<lparr>movements := movements d @ [m], nextId := nextId d + 1\<rparr>)))"

text \<open>
  \<open>ProjectMaterial.create\<close>: schema validation (quantity at least 0.001, the unit enum,
  unit cost not negative, notes of at most 500 characters when given), then the pre-save
  hook for the line cost.
\<close>

definition notes_valid :: "string option \<Rightarrow> bool" where
  "notes_valid notes = (case notes of None \<Rightarrow> True | Some n \<Rightarrow> length n \<le> 500)"

definition projectMaterial_units :: "string set" where
  "projectMaterial_units = {''kg'', ''mm'', ''m'', ''un''}"

definition ProjectMaterial_create ::
  "oid \<Rightarrow> oid \<Rightarrow> real \<Rightarrow> string \<Rightarrow> real \<Rightarrow> oid \<Rightarrow> oid \<Rightarrow> string option \<Rightarrow> db
     \<Rightarrow> error + (project_material \<times> db)" where
  "ProjectMaterial_create projectId productId qty u cost userId movementId notes d =
     (if qty < 0.001 \<or> u \<notin> projectMaterial_units \<or> cost < 0 \<or> \<not> notes_valid notes
      then Inl (ServerError ''ProjectMaterial validation failed'')
      else
        (let m = \<lparr>pm_id = nextId d, pm_project = projectId, pm_product = productId,
                  pm_quantity = qty, pm_unit = u, unitCost = cost,
                  pm_totalCost = Math_round (qty * cost * 100) / 100,
                  addedBy = userId, pm_movement = movementId, pm_notes = notes\<rparr>
         in Inr (m, d\<lparr>projectMaterials := projectMaterials d @ [m], nextId := nextId d + 1\<rparr>)))"

record material_totals =
  totalCost :: real
  materialCount :: nat

definition getProjectTotals :: "oid \<Rightarrow> db \<Rightarrow> material_totals" where
  "getProjectTotals projectId d =
     (let matched = filter (\<lambda>m. pm_project m = projectId) (projectMaterials d)
      in \<lparr>totalCost = sum_list (map pm_totalCost matched), materialCount = length matched\<rparr>)"

subsection \<open>Project model\<close>

text \<open>
  The pre-save hook: labour and other costs are recomputed only when their list is not
  empty; the totals are then added up from the stored parts.
\<close>

definition project_preSave :: "project \<Rightarrow> project" where
  "project_preSave p =
     (let entries = (if laborEntries p \<noteq> []
                     then map (\<lambda>e. e\<lparr>le_totalCost := hours e * hourlyRate e\<rparr>) (laborEntries p)
                     else laborEntries p);
          laborCost = (if laborEntries p \<noteq> []
                       then foldl (\<lambda>sum e. sum + hours e * hourlyRate e) 0 (laborEntries p)
                       else labor (costs p));
          otherCost = (if otherCosts p \<noteq> []
                       then foldl (\<lambda>sum e. sum + amount e) 0 (otherCosts p)
                       else other (costs p));
          c = (costs p)\<lparr>labor := laborCost, other := otherCost\<rparr>;
          c' = c\<lparr>total := num_or (materials c) 0 + num_or (labor c) 0 + num_or (other c) 0\<rparr>;
          b = (budget p)\<lparr>total := num_or (materials (budget p)) 0 + num_or (labor (budget p)) 0
                                   + num_or (other (budget p)) 0\<rparr>
      in p\<lparr>laborEntries := entries, costs := c', budget := b\<rparr>)"

definition labor_valid :: "labor_entry \<Rightarrow> bool" where
  "labor_valid e \<longleftrightarrow> worker e \<noteq> [] \<and> 0 \<le> hours e \<and> 0 \<le> hourlyRate e"

text \<open>
  \<open>project.save()\<close> of a loaded document: the pre-save hook, then the replacement of the
  stored document with the same id. Validation runs on what was modified only; the one
  handler that can fail it, \<open>addLabor\<close> with its new entry, checks \<open>labor_valid\<close> itself.
\<close>

definition project_save :: "project \<Rightarrow> db \<Rightarrow> db" where
  "project_save p d =
     d\<lparr>projects := map (\<lambda>x. if project_id x = project_id p then project_preSave p else x)
                         (projects d)\<rparr>"

subsection \<open>Project controller\<close>

text \<open>
  Every handler returns the response (an error, or the data of the success response)
  and the database it leaves behind. A thrown error is caught by the handler and
  answered with status 500 (\<open>ServerError\<close>); what was written before the throw stays.
\<close>

definition addMaterial ::
  "oid \<Rightarrow> oid \<Rightarrow> oid \<Rightarrow> real \<Rightarrow> string option \<Rightarrow> string option \<Rightarrow> db
     \<Rightarrow> (error + project_material) \<times> db" where
  "addMaterial projectId userId productId qty unit notes d =
     (case findProject projectId d of
        None \<Rightarrow> (Inl (NotFound ''Obra''), d)
      | Some project \<Rightarrow>
          if proj_status project = completed \<or> proj_status project = cancelled
          then (Inl (ProjectClosed ''add material''), d)
          else
            (case findProduct productId d of
               None \<Rightarrow> (Inl (NotFound ''Produto''), d)
             | Some product \<Rightarrow>
                 (let stockData = getTotalStock (product_id product) (stockItems d);
                      availableStock = num_or (totalWeight stockData) (num_or (totalQuantity stockData) 0);
                      quantityInUnit = qty
                  in if quantityInUnit > availableStock * 1.05
                     then (Inl (InsufficientStock availableStock), d)
                     else
                       (let cost = num_or (lastPrice product) (num_or (averagePrice product) 0);
                            u = str_or unit (stockUnit product)
                        in case Movement_create OUT (product_id product) userId (- qty) u
                                  (reference project) cost d of
                             Inl e \<Rightarrow> (Inl e, d)
                           | Inr (mv, d1) \<Rightarrow>
                               (let d2 = snd (decrementStock (product_id product) qty d1)
                                in case ProjectMaterial_create (project_id project) (product_id product)
                                          qty u cost userId (mv_id mv) notes d2 of
                                     Inl e \<Rightarrow> (Inl e, d2)
                                   | Inr (pm, d3) \<Rightarrow>
                                       (let materialTotals = getProjectTotals (project_id project) d3;
                                            project' = project\<lparr>costs := (costs project)
                                                          \<lparr>materials := totalCost materialTotals\<rparr>\<rparr>
                                        in (Inr pm, project_save project' d3)))))))"

definition removeMaterial :: "oid \<Rightarrow> oid \<Rightarrow> oid \<Rightarrow> db \<Rightarrow> (error + unit) \<times> db" where
  "removeMaterial projectId userId materialId d =
     (case findProject projectId d of
        None \<Rightarrow> (Inl (NotFound ''Obra''), d)
      | Some project \<Rightarrow>
          if proj_status project = completed
          then (Inl (ProjectClosed ''remove material''), d)
          else
            (case findProjectMaterial materialId d of
               None \<Rightarrow> (Inl (NotFound ''Material''), d)
             | Some projectMaterial \<Rightarrow>
                 if pm_project projectMaterial \<noteq> projectId then (Inl (NotFound ''Material''), d)
                 else
                   (case Movement_create IN (pm_product projectMaterial) userId
                           (pm_quantity projectMaterial) (pm_unit projectMaterial) []
                           (unitCost projectMaterial) d of
                      Inl e \<Rightarrow> (Inl e, d)
                    | Inr (mv, d1) \<Rightarrow>
                        (let d2 = snd (restoreStock (pm_product projectMaterial)
                                         (pm_quantity projectMaterial) d1);
                             d3 = d2\<lparr>projectMaterials :=
                                       filter (\<lambda>m. pm_id m \<noteq> pm_id projectMaterial) (projectMaterials d2)\<rparr>;
                             materialTotals = getProjectTotals (project_id project) d3;
                             project' = project\<lparr>costs := (costs project)
                                           \<lparr>materials := totalCost materialTotals\<rparr>\<rparr>
                         in (Inr (), project_save project' d3)))))"

definition addLabor ::
  "oid \<Rightarrow> string \<Rightarrow> real \<Rightarrow> real \<Rightarrow> string \<Rightarrow> db \<Rightarrow> (error + labor_entry) \<times> db" where
  "addLabor projectId wrk hrs rate descr d =
     (case findProject projectId d of
        None \<Rightarrow> (Inl (NotFound ''Obra''), d)
      | Some project \<Rightarrow>
          if proj_status project = completed \<or> proj_status project = cancelled
          then (Inl (ProjectClosed ''add labor''), d)
          else
            (let totalCost = hrs * rate;
                 entry = \<lparr>le_id = nextId d, worker = wrk, hours = hrs, hourlyRate = rate,
                          le_description = descr, le_totalCost = totalCost\<rparr>;
                 project' = project\<lparr>laborEntries := laborEntries project @ [entry]\<rparr>
             in if \<not> labor_valid entry
                then (Inl (ServerError ''Project validation failed''), d)
                else (Inr (last (laborEntries (project_preSave project'))),
                      project_save project' (d\<lparr>nextId := nextId d + 1\<rparr>))))"

text \<open>\<open>splice(entryIndex, 1)\<close> at the first index whose entry has the id.\<close>

fun removeFirst :: "oid \<Rightarrow> labor_entry list \<Rightarrow> labor_entry list" where
  "removeFirst i [] = []"
| "removeFirst i (e # es) = (if le_id e = i then es else e # removeFirst i es)"

definition removeLabor :: "oid \<Rightarrow> oid \<Rightarrow> db \<Rightarrow> (error + unit) \<times> db" where
  "removeLabor projectId entryId d =
     (case findProject projectId d of
        None \<Rightarrow> (Inl (NotFound ''Obra''), d)
      | Some project \<Rightarrow>
          (case find (\<lambda>e. le_id e = entryId) (laborEntries project) of
             None \<Rightarrow> (Inl (NotFound ''Entrada''), d)
           | Some _ \<Rightarrow>
               (let project' = project\<lparr>laborEntries := removeFirst entryId (laborEntries project)\<rparr>
                in (Inr (), project_save project' d))))"

text \<open>The live sums of a project's children.\<close>

definition labor_sum :: "project \<Rightarrow> real" where
  "labor_sum p = sum_list (map (\<lambda>e. hours e * hourlyRate e) (laborEntries p))"

definition other_sum :: "project \<Rightarrow> real" where
  "other_sum p = sum_list (map amount (otherCosts p))"

subsection \<open>Vocabulary of the statements\<close>

text \<open>
  The stock figure \<open>addMaterial\<close> checks the request against:
  \<open>stockData.totalWeight || stockData.totalQuantity || 0\<close>.
\<close>

definition availableStockOf :: "oid \<Rightarrow> db \<Rightarrow> real" where
  "availableStockOf productId d =
     (let stockData = getTotalStock productId (stockItems d)
      in num_or (totalWeight stockData) (num_or (totalQuantity stockData) 0))"






text \<open>
  A stored lot \<open>l\<close> was touched by the walk over \<open>items\<close> and became \<open>l'\<close>: some loaded
  item with its id was changed by the loop body and saved.
\<close>

definition touched :: "product list \<Rightarrow> stock_item list \<Rightarrow> stock_item \<Rightarrow> stock_item \<Rightarrow> bool" where
  "touched ps items l l' \<longleftrightarrow>
     (\<exists>r. \<exists>item\<in>set items. item_id item = item_id l \<and> l' = item_preSave ps item (deductItem r item))"

text \<open>
  The rule of the consumed transition for a lot \<open>l\<close> that a walk turned into \<open>l'\<close>: it was
  an available lot with a positive count, and it is consumed afterwards exactly when
  its count is not positive any more; otherwise it is still available.
\<close>

definition consumed_rule :: "stock_item \<Rightarrow> stock_item \<Rightarrow> bool" where
  "consumed_rule l l' \<longleftrightarrow>
     item_id l' = item_id l \<and> status l = available \<and> 0 < quantity l
     \<and> status l' = (if quantity l' \<le> 0 then consumed else available)"

subsection \<open>Example data\<close>

text \<open>
  A weight-tracked product of 1 kg per metre and a count-tracked one; \<open>bar i ty kg\<close> is
  one piece of the first product weighing \<open>kg\<close>.
\<close>

definition kg_product :: product where
  "kg_product = \<lparr>product_id = 3, weightPerMeter = 1, stockUnit = ''kg'', lastPrice = 2,
                  averagePrice = 0\<rparr>"

definition unit_product :: product where
  "unit_product = \<lparr>product_id = 4, weightPerMeter = 0, stockUnit = ''un'', lastPrice = 2,
                    averagePrice = 0\<rparr>"

definition bar :: "oid \<Rightarrow> item_type \<Rightarrow> real \<Rightarrow> stock_item" where
  "bar i ty kg = \<lparr>item_id = i, item_product = 3, item_type = ty, quantity = 1,
                   lengthMM = kg * 1000, calculatedWeight = kg, status = available\<rparr>"




definition unit_bar :: stock_item where
  "unit_bar = \<lparr>item_id = 20, item_product = 4, item_type = FULL_BAR, quantity = 3,
                lengthMM = 6000, calculatedWeight = 0, status = available\<rparr>"

definition labor_2h :: labor_entry where
  "labor_2h = \<lparr>le_id = 7, worker = ''Ana'', hours = 2, hourlyRate = 10, le_description = [],
                le_totalCost = 20\<rparr>"

definition empty_project :: project where
  "empty_project = \<lparr>project_id = 5, reference = ''OBR-2025-001'', proj_status = active,
                     budget = \<lparr>materials = 0, labor = 0, other = 0, total = 0\<rparr>,
                     costs = \<lparr>materials = 0, labor = 0, other = 0, total = 0\<rparr>,
                     laborEntries = [], otherCosts = []\<rparr>"

definition completed_project :: project where
  "completed_project = \<lparr>project_id = 5, reference = ''OBR-2025-001'', proj_status = completed,
                        budget = \<lparr>materials = 0, labor = 0, other = 0, total = 0\<rparr>,
                        costs = \<lparr>materials = 0, labor = 20, other = 0, total = 20\<rparr>,
                        laborEntries = [labor_2h], otherCosts = []\<rparr>"

definition stock_db :: "project list \<Rightarrow> stock_item list \<Rightarrow> db" where
  "stock_db prs items = \<lparr>projects = prs, products = [kg_product, unit_product], stockItems = items,
                          movements = [], projectMaterials = [], nextId = 100\<rparr>"


section \<open>Theorems\<close>

subsection \<open>Bounds on pi and on the rounding functions\<close>




lemma Math_round_near: "\<bar>Math_round x - x\<bar> \<le> 1 / 2"
  unfolding Math_round_def by linarith

lemma round2_near: "\<bar>round2 x - x\<bar> \<le> 1 / 200"
  using Math_round_near [of "x * 100"] by (simp add: round2_def field_simps abs_if split: if_splits)

subsection \<open>The weight function\<close>







subsection \<open>Length from weight\<close>

lemma length_roundtrip:
  assumes "0 < d" "0 < rho"
  shows "\<bar>lengthFromWeight (calculateWeight (volumeRoundBar d L) rho) d rho - L\<bar>
           \<le> 1 / 2 + 50 / (rho * (pi * (d / 20) ^ 2))"
proof -
  define A where "A = pi * (d / 20) ^ 2"
  define w where "w = calculateWeight (volumeRoundBar d L) rho"
  have A: "0 < A" using assms by (simp add: A_def)
  have V: "volumeRoundBar d L = A * (L / 10)"
    by (simp add: volumeRoundBar_def mmToCm_def A_def Let_def)
  have w: "\<bar>w - A * (L / 10) * rho / 1000\<bar> \<le> 1 / 200"
    using round2_near [of "A * (L / 10) * rho / 1000"]
    by (simp add: w_def calculateWeight_def V round2_def Let_def)
  have lf: "lengthFromWeight w d rho = Math_round (w * 1000 / rho / A * 10)"
    by (simp add: lengthFromWeight_def mmToCm_def A_def Let_def)
  have ex: "w * 1000 / rho / A * 10 - L = (w - A * (L / 10) * rho / 1000) * (10000 / (rho * A))"
    using A assms by (simp add: field_simps)
  have pos: "0 < 10000 / (rho * A)"
    using A assms by simp
  have "\<bar>w * 1000 / rho / A * 10 - L\<bar> = \<bar>w - A * (L / 10) * rho / 1000\<bar> * (10000 / (rho * A))"
    by (simp only: ex abs_mult abs_of_pos [OF pos])
  also have "\<dots> \<le> 1 / 200 * (10000 / (rho * A))"
    using w A assms by (intro mult_right_mono) simp_all
  finally have 1: "\<bar>w * 1000 / rho / A * 10 - L\<bar> \<le> 50 / (rho * A)"
    by simp
  have "\<bar>lengthFromWeight w d rho - L\<bar> \<le> 1 / 2 + 50 / (rho * A)"
    using Math_round_near [of "w * 1000 / rho / A * 10"] 1 unfolding lf by linarith
  then show ?thesis by (simp add: w_def A_def)
qed

text \<open>
  C8. For a round bar of positive diameter \<open>d\<close> (mm) and positive density \<open>rho\<close>, the
  length computed back from the weight of a bar of length \<open>L\<close> differs from \<open>L\<close> by at
  most the half millimetre of the length rounding plus the length that the 0.005 kg of
  the mass rounding stands for: 50 / (rho A) millimetres, with A = pi (d/20)^2 the
  cross-section in square centimetres.
\<close>

theorem lengthFromWeight_roundtrip:
  assumes "0 < d" "0 < L" "0 < rho"
  shows "\<exists>w. getWeight \<lparr>shape = ''round'', dims = \<lparr>dim_d = d, dim_w = a, dim_h = b, dim_wall = c\<rparr>,
                         lengthMm = L, density = Some rho, materialType = mt\<rparr> = Inr w
             \<and> \<bar>lengthFromWeight w d rho - L\<bar> \<le> 1 / 2 + 50 / (rho * (pi * (d / 20) ^ 2))"
  using assms length_roundtrip [of d rho L]
  by (simp add: getWeight_def effectiveDensity_def Let_def)

theorem lengthFromWeight_roundtrip_witness:
  "(0::real) < 50 \<and> (0::real) < 1000 \<and> (0::real) < 7.85 \<and>
   (\<exists>w. getWeight \<lparr>shape = ''round'', dims = \<lparr>dim_d = 50, dim_w = 0, dim_h = 0, dim_wall = 0\<rparr>,
                    lengthMm = 1000, density = Some 7.85, materialType = None\<rparr> = Inr w
        \<and> \<bar>lengthFromWeight w 50 7.85 - 1000\<bar> \<le> 1 / 2 + 50 / (7.85 * (pi * (50 / 20) ^ 2)))"
  using lengthFromWeight_roundtrip [of 50 1000 "7.85" 0 0 0 None]
  by simp

subsection \<open>Unknown shapes\<close>

text \<open>
  C9. For every shape outside the supported set (round, hex, tube, plate, box),
  \<open>getWeight\<close> throws the unknown-shape error, whatever the dimensions, length and
  density are; it returns no weight and falls back to no default shape.
\<close>

theorem getWeight_unknown_shape:
  "shape p \<notin> supported_shapes \<Longrightarrow> getWeight p = Inl (UnknownShape (shape p))"
  by (simp add: getWeight_def supported_shapes_def Let_def)

theorem getWeight_unknown_shape_witness:
  "''other'' \<notin> supported_shapes \<and>
   getWeight \<lparr>shape = ''other'', dims = \<lparr>dim_d = 50, dim_w = 0, dim_h = 0, dim_wall = 0\<rparr>,
              lengthMm = 1000, density = Some 7.85, materialType = None\<rparr>
     = Inl (UnknownShape ''other'')"
  using getWeight_unknown_shape
    [of "\<lparr>shape = ''other'', dims = \<lparr>dim_d = 50, dim_w = 0, dim_h = 0, dim_wall = 0\<rparr>,
          lengthMm = 1000, density = Some 7.85, materialType = None\<rparr>"]
  by (simp add: supported_shapes_def)

subsection \<open>The candidate query and its order\<close>

lemma set_insertSorted: "set (insertSorted x xs) = insert x (set xs)"
  by (induction xs) auto

lemma set_sortItems: "set (sortItems xs) = set xs"
  by (induction xs) (auto simp: set_insertSorted)







lemma set_findAvailable:
  "set (findAvailable pid store) = {i \<in> set store. candidate pid i}"
  by (auto simp: findAvailable_def set_sortItems)



subsection \<open>The allocation walk\<close>

lemma item_calculateWeight_fields:
  "item_id (item_calculateWeight ps i) = item_id i"
  "status (item_calculateWeight ps i) = status i"
  "quantity (item_calculateWeight ps i) = quantity i"
  by (simp_all add: item_calculateWeight_def Let_def split: option.splits)

lemma item_preSave_fields:
  "item_id (item_preSave ps old i) = item_id i"
  "status (item_preSave ps old i) = status i"
  "quantity (item_preSave ps old i) = quantity i"
  by (simp_all add: item_preSave_def item_calculateWeight_fields)

lemma deductItem_id: "item_id (deductItem r i) = item_id i"
  by (simp add: deductItem_def Let_def)















lemma Math_round_0: "Math_round 0 = 0"
  by (simp add: Math_round_def)






subsection \<open>The consumed transition\<close>

lemma deductItem_status:
  "status (deductItem r i) = (if quantity (deductItem r i) \<le> 0 then consumed else status i)"
  by (simp add: deductItem_def Let_def)

lemma decrementLoop_rel:
  "list_all2 (\<lambda>l l'. l' = l \<or> touched ps items l l') store (fst (decrementLoop ps r0 items store))"
proof (induction items arbitrary: r0 store)
  case Nil
  then show ?case by (simp add: list_all2_refl)
next
  case (Cons item items)
  show ?case
  proof (cases "r0 \<le> 0")
    case True
    then show ?thesis by (simp add: list_all2_refl)
  next
    case False
    let ?new = "item_preSave ps item (deductItem r0 item)"
    let ?store1 = "item_save ps item (deductItem r0 item) store"
    have 1: "list_all2 (\<lambda>l l1. l1 = l \<or> (item_id item = item_id l \<and> l1 = ?new)) store ?store1"
      by (simp add: item_save_def list_all2_map2 list_all2_refl)
    have 2: "list_all2 (\<lambda>l1 l'. l' = l1 \<or> touched ps items l1 l') ?store1
               (fst (decrementLoop ps (r0 - min r0 (itemStock item)) items ?store1))"
      by (rule Cons.IH)
    have "list_all2 (\<lambda>l l'. l' = l \<or> touched ps (item # items) l l') store
            (fst (decrementLoop ps (r0 - min r0 (itemStock item)) items ?store1))"
    proof (rule list_all2_trans [OF _ 1 2])
      fix a b c
      assume ab: "b = a \<or> (item_id item = item_id a \<and> b = ?new)"
        and bc: "c = b \<or> touched ps items b c"
      have idb: "item_id b = item_id a"
        using ab by (auto simp: item_preSave_fields deductItem_id)
      show "c = a \<or> touched ps (item # items) a c"
        using ab bc idb by (auto simp: touched_def)
    qed
    with False show ?thesis by (simp add: Let_def)
  qed
qed

lemma distinct_ids_eq:
  "distinct (map item_id store) \<Longrightarrow> a \<in> set store \<Longrightarrow> b \<in> set store \<Longrightarrow>
   item_id a = item_id b \<Longrightarrow> a = b"
  by (auto simp: distinct_map dest: inj_onD)

lemma decrementStock_consumed_rule:
  assumes "distinct (map item_id (stockItems d))"
  shows "list_all2 (\<lambda>l l'. l' = l \<or> consumed_rule l l')
           (stockItems d) (stockItems (snd (decrementStock pid q d)))"
proof -
  let ?items = "findAvailable pid (stockItems d)"
  have rel: "list_all2 (\<lambda>l l'. l' = l \<or> touched (products d) ?items l l') (stockItems d)
               (fst (decrementLoop (products d) q ?items (stockItems d)))"
    by (rule decrementLoop_rel)
  have "list_all2 (\<lambda>l l'. l' = l \<or> consumed_rule l l') (stockItems d)
               (fst (decrementLoop (products d) q ?items (stockItems d)))"
  proof (rule list.rel_mono_strong [OF rel])
    fix l l'
    assume l: "l \<in> set (stockItems d)" and t: "l' = l \<or> touched (products d) ?items l l'"
    show "l' = l \<or> consumed_rule l l'"
    proof (cases "l' = l")
      case True
      then show ?thesis by simp
    next
      case False
      with t obtain r item where item: "item \<in> set ?items" "item_id item = item_id l"
        and l': "l' = item_preSave (products d) item (deductItem r item)"
        by (auto simp: touched_def)
      from item(1) have mem: "item \<in> set (stockItems d)" and cand: "candidate pid item"
        by (simp_all add: set_findAvailable)
      have "item = l"
        using distinct_ids_eq [OF assms mem l item(2)] .
      with cand l' have "consumed_rule l l'"
        by (simp add: consumed_rule_def candidate_def item_preSave_fields deductItem_id
            deductItem_status)
      then show ?thesis by simp
    qed
  qed
  then show ?thesis by (simp add: decrementStock_def Let_def)
qed

lemma getTotalStock_ignores_consumed:
  "getTotalStock pid (filter (\<lambda>i. status i \<noteq> consumed) store) = getTotalStock pid store"
proof -
  have "filter (\<lambda>i. item_product i = pid \<and> status i = available)
          (filter (\<lambda>i. status i \<noteq> consumed) store)
        = filter (\<lambda>i. item_product i = pid \<and> status i = available) store"
    by (induction store) auto
  then show ?thesis by (simp add: getTotalStock_def)
qed

text \<open>
  C5. In a store with distinct ids, every lot after a decrement call is either the lot
  it was, or a lot the walk touched: then it was available with a positive count, and it
  is consumed exactly when the count left is zero or less, and still available
  otherwise. A consumed lot is never among the lots a later walk loads, and the
  total-stock aggregation is the same with or without the consumed lots.
\<close>

theorem consumed_exactly_at_zero:
  "(distinct (map item_id (stockItems d)) \<longrightarrow>
      list_all2 (\<lambda>l l'. l' = l \<or> consumed_rule l l')
        (stockItems d) (stockItems (snd (decrementStock pid q d))))
   \<and> (status i = consumed \<longrightarrow> i \<notin> set (findAvailable pid' store))
   \<and> getTotalStock pid' (filter (\<lambda>i. status i \<noteq> consumed) store) = getTotalStock pid' store"
  using decrementStock_consumed_rule [of d pid q]
  by (simp add: set_findAvailable candidate_def getTotalStock_ignores_consumed)

theorem consumed_exactly_at_zero_witness:
  "distinct (map item_id (stockItems (stock_db [] [bar 10 FULL_BAR 20, bar 11 OFFCUT 5])))
   \<and> status ((bar 11 OFFCUT 5)\<lparr>quantity := 0, calculatedWeight := 0, status := consumed\<rparr>) = consumed
   \<and> decrementStock 3 12 (stock_db [] [bar 10 FULL_BAR 20, bar 11 OFFCUT 5])
       = (True, stock_db [] [(bar 10 FULL_BAR 20)\<lparr>quantity := 13 / 20, calculatedWeight := 13\<rparr>,
                             (bar 11 OFFCUT 5)\<lparr>quantity := 0, calculatedWeight := 0,
                                                 status := consumed\<rparr>])
   \<and> list_all2 (\<lambda>l l'. l' = l \<or> consumed_rule l l')
        [bar 10 FULL_BAR 20, bar 11 OFFCUT 5]
        [(bar 10 FULL_BAR 20)\<lparr>quantity := 13 / 20, calculatedWeight := 13\<rparr>,
         (bar 11 OFFCUT 5)\<lparr>quantity := 0, calculatedWeight := 0, status := consumed\<rparr>]
   \<and> (bar 11 OFFCUT 5)\<lparr>quantity := 0, calculatedWeight := 0, status := consumed\<rparr>
        \<notin> set (findAvailable 3 [(bar 10 FULL_BAR 20)\<lparr>quantity := 13 / 20, calculatedWeight := 13\<rparr>,
               (bar 11 OFFCUT 5)\<lparr>quantity := 0, calculatedWeight := 0, status := consumed\<rparr>])"
proof -
  have f: "findAvailable 3 [bar 10 FULL_BAR 20, bar 11 OFFCUT 5] = [bar 11 OFFCUT 5, bar 10 FULL_BAR 20]"
    by (simp add: findAvailable_def bar_def candidate_def sortBefore_def)
  have s: "stockItems (stock_db [] [bar 10 FULL_BAR 20, bar 11 OFFCUT 5])
             = [bar 10 FULL_BAR 20, bar 11 OFFCUT 5]"
    by (simp add: stock_db_def)
  have r: "Math_round 1300 = 1300"
    by (simp add: Math_round_def)
  have dec: "decrementStock 3 12 (stock_db [] [bar 10 FULL_BAR 20, bar 11 OFFCUT 5])
       = (True, stock_db [] [(bar 10 FULL_BAR 20)\<lparr>quantity := 13 / 20, calculatedWeight := 13\<rparr>,
                             (bar 11 OFFCUT 5)\<lparr>quantity := 0, calculatedWeight := 0,
                                                 status := consumed\<rparr>])"
    unfolding decrementStock_def s f
    by (simp add: stock_db_def bar_def kg_product_def Let_def itemStock_def num_or_def
        deductItem_def item_save_def item_preSave_def item_calculateWeight_def Math_round_0 r)
  have d: "distinct (map item_id (stockItems (stock_db [] [bar 10 FULL_BAR 20, bar 11 OFFCUT 5])))"
    by (simp add: stock_db_def bar_def)
  show ?thesis
    using consumed_exactly_at_zero
      [of "stock_db [] [bar 10 FULL_BAR 20, bar 11 OFFCUT 5]" 3 12
          "(bar 11 OFFCUT 5)\<lparr>quantity := 0, calculatedWeight := 0, status := consumed\<rparr>" 3
          "[(bar 10 FULL_BAR 20)\<lparr>quantity := 13 / 20, calculatedWeight := 13\<rparr>,
            (bar 11 OFFCUT 5)\<lparr>quantity := 0, calculatedWeight := 0, status := consumed\<rparr>]"]
      d
    unfolding dec by (simp add: stock_db_def)
qed

subsection \<open>The stock pre-check of addMaterial\<close>

lemma findProduct_id: "findProduct i d = Some p \<Longrightarrow> product_id p = i"
  by (auto simp: findProduct_def find_Some_iff)

lemma addMaterial_precheck:
  assumes "qty > availableStockOf productId d * 1.05"
  shows "snd (addMaterial projectId userId productId qty unit notes d) = d"
    and "\<exists>e. fst (addMaterial projectId userId productId qty unit notes d) = Inl e"
    and "findProject projectId d = Some project \<Longrightarrow> proj_status project \<noteq> completed \<Longrightarrow>
         proj_status project \<noteq> cancelled \<Longrightarrow> findProduct productId d = Some product \<Longrightarrow>
         fst (addMaterial projectId userId productId qty unit notes d)
           = Inl (InsufficientStock (availableStockOf productId d))"
  using assms
  by (auto simp: addMaterial_def availableStockOf_def Let_def dest!: findProduct_id
           split: option.splits)

lemma available_10: "availableStockOf 3 (stock_db [empty_project] [bar 10 FULL_BAR 10]) = 10"
  by (simp add: availableStockOf_def getTotalStock_def stock_db_def bar_def num_or_def)

lemma find_example:
  "findProject 5 (stock_db [empty_project] items) = Some empty_project"
  "findProduct 3 (stock_db prs items) = Some kg_product"
  "proj_status empty_project = active"
  by (simp_all add: findProject_def findProduct_def stock_db_def empty_project_def kg_product_def)

text \<open>
  C1. When the requested quantity is above 1.05 times the available stock of the
  product (the summed weight of its available lots, or their summed count when that
  weight is zero), \<open>addMaterial\<close> answers with an error and leaves the whole database as
  it was: no lot, movement or usage record is written. For an existing open project and
  an existing product the error is the insufficient-stock error carrying that available
  amount.
\<close>

theorem addMaterial_insufficient_stock:
  assumes "qty > availableStockOf productId d * 1.05"
  shows "snd (addMaterial projectId userId productId qty unit notes d) = d
     \<and> (\<exists>e. fst (addMaterial projectId userId productId qty unit notes d) = Inl e)
     \<and> (findProject projectId d = Some project \<and> proj_status project \<noteq> completed
          \<and> proj_status project \<noteq> cancelled \<and> findProduct productId d = Some product \<longrightarrow>
        fst (addMaterial projectId userId productId qty unit notes d)
          = Inl (InsufficientStock (availableStockOf productId d)))"
  using addMaterial_precheck [OF assms] by blast

text \<open>The scenario: 20 requested with 10 available.\<close>

theorem addMaterial_insufficient_stock_witness:
  "20 > availableStockOf 3 (stock_db [empty_project] [bar 10 FULL_BAR 10]) * 1.05
   \<and> findProject 5 (stock_db [empty_project] [bar 10 FULL_BAR 10]) = Some empty_project
   \<and> proj_status empty_project \<noteq> completed \<and> proj_status empty_project \<noteq> cancelled
   \<and> findProduct 3 (stock_db [empty_project] [bar 10 FULL_BAR 10]) = Some kg_product
   \<and> addMaterial 5 9 3 20 None None (stock_db [empty_project] [bar 10 FULL_BAR 10])
       = (Inl (InsufficientStock 10), stock_db [empty_project] [bar 10 FULL_BAR 10])"
proof -
  have gt: "20 > availableStockOf 3 (stock_db [empty_project] [bar 10 FULL_BAR 10]) * 1.05"
    by (simp add: available_10)
  show ?thesis
    using addMaterial_insufficient_stock [OF gt, of 5 9 None None empty_project kg_product] gt
    by (simp add: find_example available_10 prod_eq_iff)
qed


subsection \<open>A request the walk cannot serve in full\<close>









subsection \<open>Restoring stock\<close>

lemma restoreStock_ignores_quantity: "restoreStock pid q d = restoreStock pid q' d"
  by (simp add: restoreStock_def)

text \<open>
  C6. \<open>restoreStock\<close> never reads its quantity: whatever is handed back, the first
  available full bar of the product gets exactly one more piece (or a new full bar of
  one piece is created). Handing back 5 pieces to a count-tracked product whose only
  lot is a full bar of 3 leaves a full bar of 4, and the available total grows by 1.
\<close>

theorem restoreStock_adds_one_piece:
  "stockItems (snd (restoreStock 4 5 (stock_db [] [unit_bar]))) = [unit_bar\<lparr>quantity := 4\<rparr>]
   \<and> totalQuantity (getTotalStock 4 (stockItems (snd (restoreStock 4 5 (stock_db [] [unit_bar])))))
       = totalQuantity (getTotalStock 4 (stockItems (stock_db [] [unit_bar]))) + 1
   \<and> stockItems (snd (restoreStock 4 5 (stock_db [] [])))
       = [\<lparr>item_id = 100, item_product = 4, item_type = FULL_BAR, quantity = 1,
           lengthMM = 6000, calculatedWeight = 0, status = available\<rparr>]"
  by (simp add: restoreStock_def stock_db_def unit_bar_def unit_product_def kg_product_def
      item_save_def item_preSave_def item_calculateWeight_def getTotalStock_def Let_def)

subsection \<open>Closed projects\<close>

lemma addMaterial_closed:
  "findProject projectId d = Some project \<Longrightarrow>
   proj_status project = completed \<or> proj_status project = cancelled \<Longrightarrow>
   addMaterial projectId userId productId qty unit notes d = (Inl (ProjectClosed ''add material''), d)"
  by (auto simp: addMaterial_def)

lemma addLabor_closed:
  "findProject projectId d = Some project \<Longrightarrow>
   proj_status project = completed \<or> proj_status project = cancelled \<Longrightarrow>
   addLabor projectId wrk hrs rate descr d = (Inl (ProjectClosed ''add labor''), d)"
  by (auto simp: addLabor_def)

lemma removeMaterial_closed:
  "findProject projectId d = Some project \<Longrightarrow>
   (\<exists>s. removeMaterial projectId userId materialId d = (Inl (ProjectClosed s), d))
     \<longleftrightarrow> proj_status project = completed"
  by (auto simp: removeMaterial_def Movement_create_def Let_def
      split: option.splits sum.splits prod.splits)

lemma removeLabor_never_closed:
  "fst (removeLabor projectId entryId d) \<noteq> Inl (ProjectClosed s)"
  by (auto simp: removeLabor_def Let_def split: option.splits)

text \<open>
  C7. Additions of material and labour are refused on a completed or cancelled project,
  and removal of material is refused exactly on a completed one (the three lemmas
  above). \<open>removeLabor\<close> has no status check: on a completed project it succeeds and
  removes the entry.
\<close>

theorem removeLabor_on_completed_project:
  "proj_status completed_project = completed
   \<and> laborEntries completed_project = [labor_2h]
   \<and> removeLabor 5 7 (stock_db [completed_project] [])
       = (Inr (), stock_db [completed_project\<lparr>laborEntries := []\<rparr>] [])"
  by (simp add: removeLabor_def findProject_def stock_db_def completed_project_def labor_2h_def
      project_save_def project_preSave_def num_or_def Let_def)

subsection \<open>The cost aggregate\<close>

lemma foldl_add_sum: "foldl (\<lambda>s e. s + f e) a xs = a + sum_list (map f xs)"
  for a :: real
  by (induction xs arbitrary: a) (simp_all add: algebra_simps)

lemma project_preSave_labor:
  "laborEntries p \<noteq> [] \<Longrightarrow> labor (costs (project_preSave p)) = labor_sum (project_preSave p)"
  by (simp add: project_preSave_def Let_def labor_sum_def foldl_add_sum comp_def)

lemma project_preSave_other:
  "otherCosts p \<noteq> [] \<Longrightarrow> other (costs (project_preSave p)) = other_sum (project_preSave p)"
  by (simp add: project_preSave_def Let_def other_sum_def foldl_add_sum)

lemma project_preSave_total:
  "total (costs (project_preSave p))
     = materials (costs (project_preSave p)) + labor (costs (project_preSave p))
       + other (costs (project_preSave p))"
  by (simp add: project_preSave_def Let_def num_or_def)

text \<open>
  C4. The pre-save hook recomputes the labour cost only while the list of entries is
  not empty (lemma \<open>project_preSave_labor\<close>). One add/remove cycle on a project without
  entries and with all costs at 0: \<open>addLabor\<close> of 2 hours at 10 succeeds, \<open>removeLabor\<close> of
  that entry succeeds, and the project is left without children but with a labour cost
  and a total of 20, while the live sum of its entries is 0.
\<close>

theorem removeLabor_last_entry_keeps_cost:
  "costs empty_project = \<lparr>materials = 0, labor = 0, other = 0, total = 0\<rparr>
   \<and> laborEntries empty_project = []
   \<and> (\<exists>e d1 d2 p. addLabor 5 ''Ana'' 2 10 [] (stock_db [empty_project] []) = (Inr e, d1)
        \<and> removeLabor 5 (le_id e) d1 = (Inr (), d2)
        \<and> findProject 5 d2 = Some p
        \<and> laborEntries p = [] \<and> otherCosts p = [] \<and> labor_sum p = 0
        \<and> costs p = \<lparr>materials = 0, labor = 20, other = 0, total = 20\<rparr>)"
  by (simp add: addLabor_def removeLabor_def findProject_def stock_db_def empty_project_def
      labor_valid_def project_save_def project_preSave_def num_or_def Let_def labor_sum_def)

end
